theory Spec2Isabelle
  imports Main
begin

section \<open>The menubar component (app/renderer/components/menubar.js)\<close>

text \<open>
  The component is a pair of React classes, \<open>MenubarItem\<close> and \<open>Menubar\<close>, and one
  helper, \<open>showContextMenu\<close>. Its handlers read their props and the DOM and call
  \<open>windowActions\<close>; they return nothing. A handler is modelled as a function from the
  props, the document and the event to the list of effects it performs, in the order of
  the source, together with the exception that ended it, if any.
\<close>

subsection \<open>Data\<close>

text \<open>A DOMRect, as returned by \<open>getBoundingClientRect\<close>. Only \<open>left\<close> and
  \<open>bottom\<close> are read by the component; coordinates are copied, never computed with.\<close>

record rect =
  rect_left :: int
  rect_top :: int
  rect_right :: int
  rect_bottom :: int

text \<open>A DOM element: its identity and its bounding rectangle.\<close>

record element =
  element_id :: nat
  boundingClientRect :: rect

text \<open>The document, as far as the component queries it: \<open>document.querySelectorAll\<close>.
  The call returns the elements that match the selector, or raises \<open>SyntaxError\<close> when
  the string is not a selector (\<open>None\<close>). Which strings parse is the document's matter:
  the component builds a selector from an unescaped label (line 117), and a label with an
  apostrophe can give a string that does not parse.\<close>

record document =
  querySelectorAll :: "string \<Rightarrow> element list option"

text \<open>
  The \<open>click\<close> property of a submenu entry. \<open>HostClick\<close> is a handler supplied by the
  host with the template (opaque to the component); \<open>MenubarClick sel l\<close> is the closure
  that \<open>showContextMenu\<close> stores (lines 21-31), which captures \<open>lastFocusedSelector\<close>
  and the entry whose \<open>label\<close> it reads.
\<close>

datatype click =
    NoClick
  | HostClick nat
  | MenubarClick "string option" "string option"

text \<open>
  A submenu entry: an Immutable Map in the template, a plain object after \<open>toJS()\<close>.
  A key that is absent reads as \<open>undefined\<close> (here \<open>None\<close>); \<open>has('visible')\<close> is
  \<open>item_visible \<noteq> None\<close>.
\<close>

record submenuItem =
  item_type :: "string option"
  item_label :: "string option"
  item_visible :: "bool option"
  item_click :: click

text \<open>A top-level entry of the template.\<close>

record menuEntry =
  label :: string
  submenu :: "submenuItem list"

text \<open>The argument of \<open>windowActions.setContextMenuDetail\<close> (lines 14-34).\<close>

record contextMenuDetail =
  detail_left :: int
  detail_top :: int
  detail_template :: "submenuItem list"

text \<open>The props of \<open>Menubar\<close>. \<open>None\<close> is a prop that is \<open>undefined\<close> (not passed,
  or unset in the window state).\<close>

record menubar_props =
  template :: "menuEntry list"
  selectedLabel :: "string option"
  selectedIndex :: int
  autohide :: bool
  contextMenuDetail :: "contextMenuDetail option"
  lastFocusedSelector :: "string option"

text \<open>The props of \<open>MenubarItem\<close>, as \<open>Menubar.render\<close> builds them (lines 197-205).\<close>

record menubarItem_props =
  props_label :: string
  props_submenu :: "submenuItem list"
  props_menubar :: menubar_props
  props_lastFocusedSelector :: "string option"
  props_selected :: bool

text \<open>The calls into \<open>windowActions\<close>; a call without argument passes \<open>undefined\<close>.\<close>

datatype action =
    SetContextMenuDetail "contextMenuDetail option"
  | SetMenubarSelectedLabel "string option"
  | SetSubmenuSelectedIndex int
  | ClickMenubarSubmenu "string option"
  | ResetMenuState

datatype effect =
    PreventDefault
  | StopPropagation
  | Focus element
  | Dispatch action

datatype exn = TypeError | SyntaxError

text \<open>A click or mouse event: whether it has \<open>stopPropagation\<close>, and its target.\<close>

record mouseEvent =
  has_stopPropagation :: bool
  target :: element

subsection \<open>Collaborators that are not part of the component\<close>

text \<open>JavaScript truthiness of a string that may be absent: \<open>undefined\<close> and the empty
  string are falsy.\<close>

definition truthy :: "string option \<Rightarrow> bool" where
  "truthy s = (case s of None \<Rightarrow> False | Some str \<Rightarrow> str \<noteq> [])"

text \<open>String concatenation with a value that may be \<open>undefined\<close>.\<close>

definition toString_label :: "string option \<Rightarrow> string" where
  "toString_label l = (case l of None \<Rightarrow> ''undefined'' | Some s \<Rightarrow> s)"

text \<open>Modelled from the spec: the separator-item marker type
  (\<open>separatorMenuItem.type\<close> of app/common/commonMenu), which is not among the sources.
  The theorems hold whatever the string is; the concrete menubar below uses it.
\<close>

definition separatorMenuItem_type :: "string option" where
  "separatorMenuItem_type = Some ''separator''"

text \<open>Modelled from the spec: the keycode constants (js/constants/keyCodes), which are not
  among the sources. They are the DOM key codes; only their being distinct matters.
\<close>

definition keyCodes_ENTER :: nat where "keyCodes_ENTER = 13"
definition keyCodes_LEFT :: nat where "keyCodes_LEFT = 37"
definition keyCodes_UP :: nat where "keyCodes_UP = 38"
definition keyCodes_RIGHT :: nat where "keyCodes_RIGHT = 39"
definition keyCodes_DOWN :: nat where "keyCodes_DOWN = 40"

text \<open>Modelled from the spec: \<open>wrappingClamp\<close> of app/common/lib/formatUtil, which is not
  among the sources. Section 4.2: given value, lower bound, upper bound, if value exceeds
  upper bound it wraps to lower bound; if value is below lower bound it wraps to upper
  bound; otherwise unchanged.
\<close>

definition wrappingClamp :: "int \<Rightarrow> int \<Rightarrow> int \<Rightarrow> int" where
  "wrappingClamp v lo hi = (if v > hi then lo else if v < lo then hi else v)"

text \<open>\<open>List.findIndex\<close>: the index of the first element that satisfies the predicate,
  or \<open>-1\<close>.\<close>

fun findIndex :: "('a \<Rightarrow> bool) \<Rightarrow> 'a list \<Rightarrow> int" where
  "findIndex P [] = - 1"
| "findIndex P (x # xs) =
     (if P x then 0
      else (let r = findIndex P xs in if r = - 1 then - 1 else r + 1))"

text \<open>\<open>List.get\<close> of Immutable: a negative index counts from the end, and an index out
  of range reads as \<open>undefined\<close>.\<close>

definition List_get :: "'a list \<Rightarrow> int \<Rightarrow> 'a option" where
  "List_get xs index =
     (let n = int (length xs); i = (if index < 0 then n + index else index)
      in if 0 \<le> i \<and> i < n then Some (xs ! nat i) else None)"

subsection \<open>showContextMenu (lines 13-35)\<close>

text \<open>The body of the closure stored as \<open>click\<close> (lines 21-31), run against a
  document. The query of line 25 raises when \<open>lastFocusedSelector\<close> does not parse;
  the host supplies it as a selector.\<close>

definition submenuItem_click :: "document \<Rightarrow> string option \<Rightarrow> string option \<Rightarrow> effect list \<times> exn option" where
  "submenuItem_click doc lastFocused l =
     (if truthy lastFocused then
        (case querySelectorAll doc (toString_label lastFocused) of
           None \<Rightarrow> ([PreventDefault], Some SyntaxError)
         | Some results \<Rightarrow>
             ([PreventDefault]
              @ (if length results = 1 then [Focus (results ! 0)] else [])
              @ [Dispatch (ClickMenubarSubmenu l)], None))
      else ([PreventDefault, Dispatch (ClickMenubarSubmenu l)], None))"

text \<open>Running a \<open>click\<close> property; a host handler is outside the component.\<close>

fun run_click :: "document \<Rightarrow> click \<Rightarrow> (effect list \<times> exn option) option" where
  "run_click doc (MenubarClick sel l) = Some (submenuItem_click doc sel l)"
| "run_click doc (HostClick h) = None"
| "run_click doc NoClick = None"

text \<open>The function mapped over the submenu (lines 17-33). The source assigns \<open>click\<close>
  in place on the entries of its argument, which are copies made by \<open>toJS()\<close> (lines
  163, 177 and 199); the model returns the new entry.\<close>

definition wrap_submenuItem :: "string option \<Rightarrow> submenuItem \<Rightarrow> submenuItem" where
  "wrap_submenuItem lastFocused submenuItem =
     (if item_type submenuItem = separatorMenuItem_type then submenuItem
      else submenuItem\<lparr>item_click := MenubarClick lastFocused (item_label submenuItem)\<rparr>)"

definition showContextMenu :: "rect \<Rightarrow> submenuItem list \<Rightarrow> string option \<Rightarrow> effect list" where
  "showContextMenu r sub lastFocused =
     [Dispatch (SetContextMenuDetail (Some
        \<lparr>detail_left = rect_left r,
         detail_top = rect_bottom r,
         detail_template = map (wrap_submenuItem lastFocused) sub\<rparr>))]"

subsection \<open>MenubarItem (lines 37-74)\<close>

text \<open>
  \<open>onClick\<close> (lines 43-58). The event may be absent (the guard of line 44); then
  \<open>e.target\<close> of line 56 raises after the label has been dispatched.
\<close>

definition onClick :: "menubarItem_props \<Rightarrow> mouseEvent option \<Rightarrow> effect list \<times> exn option" where
  "onClick props e =
     (let stop = (case e of
                    None \<Rightarrow> []
                  | Some ev \<Rightarrow> if has_stopPropagation ev then [StopPropagation] else []);
          selected = selectedLabel (props_menubar props)
      in if truthy selected \<and> selected = Some (props_label props) then
           (stop @ [Dispatch (SetContextMenuDetail None), Dispatch (SetMenubarSelectedLabel None)],
            None)
         else
           (case e of
              None \<Rightarrow>
                (stop @ [Dispatch (SetMenubarSelectedLabel (Some (props_label props)))],
                 Some TypeError)
            | Some ev \<Rightarrow>
                (stop @ [Dispatch (SetMenubarSelectedLabel (Some (props_label props)))]
                 @ showContextMenu (boundingClientRect (target ev)) (props_submenu props)
                     (props_lastFocusedSelector props),
                 None)))"

text \<open>\<open>onMouseOver\<close> (lines 59-64).\<close>

definition onMouseOver :: "menubarItem_props \<Rightarrow> mouseEvent option \<Rightarrow> effect list \<times> exn option" where
  "onMouseOver props e =
     (let selected = selectedLabel (props_menubar props)
      in if truthy selected \<and> selected \<noteq> Some (props_label props) then onClick props e
         else ([], None))"

subsection \<open>Menubar (lines 81-211)\<close>

text \<open>\<open>getTemplateByLabel\<close> (lines 92-97); \<open>None\<close> is the \<open>null\<close> of line 96.\<close>

definition getTemplateByLabel :: "menubar_props \<Rightarrow> string option \<Rightarrow> submenuItem list option" where
  "getTemplateByLabel p l =
     (case List.find (\<lambda>element. Some (label element) = l) (template p) of
        Some element \<Rightarrow> Some (submenu element)
      | None \<Rightarrow> None)"

definition selectedTemplate :: "menubar_props \<Rightarrow> submenuItem list option" where
  "selectedTemplate p = getTemplateByLabel p (selectedLabel p)"

text \<open>The predicate of the filter of lines 103-107.\<close>

definition itemsOnly :: "submenuItem \<Rightarrow> bool" where
  "itemsOnly element =
     (if item_type element = separatorMenuItem_type then False
      else (case item_visible element of Some v \<Rightarrow> v | None \<Rightarrow> True))"

text \<open>\<open>selectedTemplateItemsOnly\<close> (lines 101-108): \<open>null.filter\<close> raises.\<close>

definition selectedTemplateItemsOnly :: "menubar_props \<Rightarrow> exn + submenuItem list" where
  "selectedTemplateItemsOnly p =
     (case selectedTemplate p of
        None \<Rightarrow> Inl TypeError
      | Some sub \<Rightarrow> Inr (filter itemsOnly sub))"

text \<open>\<open>selectedIndexMax\<close> (lines 109-115).\<close>

definition selectedIndexMax :: "menubar_props \<Rightarrow> exn + int" where
  "selectedIndexMax p =
     (case selectedTemplateItemsOnly p of
        Inl ex \<Rightarrow> Inl ex
      | Inr result \<Rightarrow> Inr (if int (length result) > 0 then int (length result) else 0))"

text \<open>\<open>getRectByLabel\<close> (lines 116-122). The label goes into the selector as it is;
  when the string does not parse, the query of line 117 raises. \<open>Inr None\<close> is the
  \<open>null\<close> of line 121.\<close>

definition getRectByLabel :: "document \<Rightarrow> string option \<Rightarrow> exn + rect option" where
  "getRectByLabel doc l =
     (case querySelectorAll doc
            (''.menubar .menubarItem[data-label='' @ [CHR 0x27] @ toString_label l
             @ [CHR 0x27] @ '']'') of
        None \<Rightarrow> Inl SyntaxError
      | Some selected \<Rightarrow>
          Inr (if length selected = 1 then Some (boundingClientRect (selected ! 0)) else None))"

definition selectedRect :: "document \<Rightarrow> menubar_props \<Rightarrow> exn + rect option" where
  "selectedRect doc p = getRectByLabel doc (selectedLabel p)"

text \<open>The next top-level index of the Left/Right branch (lines 143-151).\<close>

definition nextIndex_leftRight :: "menubar_props \<Rightarrow> nat \<Rightarrow> int" where
  "nextIndex_leftRight p which =
     (let selectedIndex = findIndex (\<lambda>element. Some (label element) = selectedLabel p) (template p)
      in if selectedIndex = - 1 then 0
         else wrappingClamp (selectedIndex + (if which = keyCodes_LEFT then - 1 else 1)) 0
                (int (length (template p)) - 1))"

text \<open>The Enter branch (lines 128-135).\<close>

definition onKeyDown_enter :: "menubar_props \<Rightarrow> effect list \<times> exn option" where
  "onKeyDown_enter p =
     (if selectedTemplate p \<noteq> None then
        (case selectedTemplateItemsOnly p of
           Inl ex \<Rightarrow> ([PreventDefault], Some ex)
         | Inr items \<Rightarrow>
             (let selectedLabel = Option.bind (List_get items (selectedIndex p)) item_label
              in ([PreventDefault,
                   Dispatch (ClickMenubarSubmenu selectedLabel),
                   Dispatch ResetMenuState], None)))
      else ([PreventDefault], None))"

text \<open>The Left/Right branch (lines 137-166). The rectangle of the next label is looked
  up (line 156) before the label is dispatched (line 158): when the lookup raises, the
  handler has only prevented the default.\<close>

definition onKeyDown_leftRight :: "document \<Rightarrow> menubar_props \<Rightarrow> nat \<Rightarrow> effect list \<times> exn option" where
  "onKeyDown_leftRight doc p which =
     (if \<not> autohide p \<and> \<not> truthy (selectedLabel p) then ([], None)
      else if int (length (template p)) > 0 then
        (let nextIndex = nextIndex_leftRight p which;
             nextLabel = map_option label (List_get (template p) nextIndex)
         in case getRectByLabel doc nextLabel of
              Inl ex \<Rightarrow> ([PreventDefault], Some ex)
            | Inr nextRect \<Rightarrow>
                (case (if contextMenuDetail p \<noteq> None \<and> selectedTemplate p \<noteq> None
                       then nextRect else None) of
                   Some r \<Rightarrow>
                     (case getTemplateByLabel p nextLabel of
                        None \<Rightarrow>
                          ([PreventDefault,
                            Dispatch (SetMenubarSelectedLabel nextLabel),
                            Dispatch (SetSubmenuSelectedIndex 0)], Some TypeError)
                      | Some sub \<Rightarrow>
                          ([PreventDefault,
                            Dispatch (SetMenubarSelectedLabel nextLabel),
                            Dispatch (SetSubmenuSelectedIndex 0)]
                           @ showContextMenu r sub (lastFocusedSelector p), None))
                 | None \<Rightarrow>
                     ([PreventDefault, Dispatch (SetMenubarSelectedLabel nextLabel)], None)))
      else ([PreventDefault], None))"

text \<open>The Up/Down branch (lines 168-187). \<open>this.selectedRect\<close> is evaluated in the
  condition of line 174 when no context menu is open, and again, with the same result,
  at line 177.\<close>

definition onKeyDown_upDown :: "document \<Rightarrow> menubar_props \<Rightarrow> nat \<Rightarrow> effect list \<times> exn option" where
  "onKeyDown_upDown doc p which =
     (if \<not> autohide p \<and> \<not> truthy (selectedLabel p) then ([], None)
      else
        (case (if truthy (selectedLabel p) then selectedTemplate p else None) of
           Some sub \<Rightarrow>
             (case (if contextMenuDetail p = None then selectedRect doc p else Inr None) of
                Inl ex \<Rightarrow> ([PreventDefault], Some ex)
              | Inr (Some r) \<Rightarrow>
                  ([PreventDefault, Dispatch (SetSubmenuSelectedIndex 0)]
                   @ showContextMenu r sub (lastFocusedSelector p), None)
              | Inr None \<Rightarrow>
                  (case selectedIndexMax p of
                     Inl ex \<Rightarrow> ([PreventDefault], Some ex)
                   | Inr indexMax \<Rightarrow>
                       (let nextIndex = wrappingClamp
                              (selectedIndex p + (if which = keyCodes_UP then - 1 else 1))
                              0 (indexMax - 1)
                        in ([PreventDefault, Dispatch (SetSubmenuSelectedIndex nextIndex)],
                            None))))
         | None \<Rightarrow> ([PreventDefault], None)))"

text \<open>\<open>onKeyDown\<close> (lines 126-189): the \<open>switch\<close> on \<open>e.which\<close>.\<close>

definition onKeyDown :: "document \<Rightarrow> menubar_props \<Rightarrow> nat \<Rightarrow> effect list \<times> exn option" where
  "onKeyDown doc p which =
     (if which = keyCodes_ENTER then onKeyDown_enter p
      else if which = keyCodes_LEFT \<or> which = keyCodes_RIGHT then onKeyDown_leftRight doc p which
      else if which = keyCodes_UP \<or> which = keyCodes_DOWN then onKeyDown_upDown doc p which
      else ([], None))"

text \<open>\<open>render\<close> (lines 193-210): the props of the \<open>MenubarItem\<close> of every entry.\<close>

definition render_props :: "menubar_props \<Rightarrow> menuEntry \<Rightarrow> menubarItem_props" where
  "render_props p menubarItem =
     \<lparr>props_label = label menubarItem,
      props_submenu = submenu menubarItem,
      props_menubar = p,
      props_lastFocusedSelector = lastFocusedSelector p,
      props_selected = (Some (label menubarItem) = selectedLabel p)\<rparr>"

definition render :: "menubar_props \<Rightarrow> menubarItem_props list" where
  "render p = map (render_props p) (template p)"

subsection \<open>A concrete menubar\<close>

text \<open>The template of the spec's example (File, Edit, View), rendered in a document
  that holds one element for each label and one web frame. The document refuses two
  strings as selectors: the one line 117 builds from the label \<open>Bob's\<close>, whose
  apostrophe ends the quoted value early, and \<open>webview[\<close>.\<close>

definition File_submenu :: "submenuItem list" where
  "File_submenu =
     [\<lparr>item_type = None, item_label = Some ''New Tab'', item_visible = None,
       item_click = HostClick 0\<rparr>,
      \<lparr>item_type = Some ''separator'', item_label = None, item_visible = Some True,
       item_click = NoClick\<rparr>,
      \<lparr>item_type = None, item_label = Some ''Print'', item_visible = Some False,
       item_click = HostClick 1\<rparr>,
      \<lparr>item_type = None, item_label = Some ''Quit'', item_visible = Some True,
       item_click = HostClick 2\<rparr>]"

definition View_submenu :: "submenuItem list" where
  "View_submenu =
     [\<lparr>item_type = None, item_label = Some ''Zoom In'', item_visible = None,
       item_click = HostClick 3\<rparr>]"

definition example_template :: "menuEntry list" where
  "example_template =
     [\<lparr>label = ''File'', submenu = File_submenu\<rparr>,
      \<lparr>label = ''Edit'', submenu = []\<rparr>,
      \<lparr>label = ''View'', submenu = View_submenu\<rparr>]"

definition File_rect :: rect where
  "File_rect = \<lparr>rect_left = 0, rect_top = 0, rect_right = 40, rect_bottom = 20\<rparr>"

definition Edit_rect :: rect where
  "Edit_rect = \<lparr>rect_left = 40, rect_top = 0, rect_right = 80, rect_bottom = 20\<rparr>"

definition View_rect :: rect where
  "View_rect = \<lparr>rect_left = 80, rect_top = 0, rect_right = 120, rect_bottom = 20\<rparr>"

definition webview :: element where
  "webview = \<lparr>element_id = 0,
     boundingClientRect = \<lparr>rect_left = 0, rect_top = 20, rect_right = 800, rect_bottom = 600\<rparr>\<rparr>"

definition File_element :: element where
  "File_element = \<lparr>element_id = 1, boundingClientRect = File_rect\<rparr>"

definition Edit_element :: element where
  "Edit_element = \<lparr>element_id = 2, boundingClientRect = Edit_rect\<rparr>"

definition View_element :: element where
  "View_element = \<lparr>element_id = 3, boundingClientRect = View_rect\<rparr>"

definition example_document :: document where
  "example_document =
     \<lparr>querySelectorAll = (\<lambda>selector.
        if selector = ''.menubar .menubarItem[data-label='' @ [CHR 0x27] @ ''File'' @ [CHR 0x27] @ '']''
        then Some [File_element]
        else if selector = ''.menubar .menubarItem[data-label='' @ [CHR 0x27] @ ''Edit'' @ [CHR 0x27] @ '']''
        then Some [Edit_element]
        else if selector = ''.menubar .menubarItem[data-label='' @ [CHR 0x27] @ ''View'' @ [CHR 0x27] @ '']''
        then Some [View_element]
        else if selector = ''.menubar .menubarItem[data-label='' @ [CHR 0x27] @ ''Bob'' @ [CHR 0x27] @ ''s'' @ [CHR 0x27] @ '']''
        then None
        else if selector = ''webview'' then Some [webview]
        else if selector = ''webview['' then None
        else Some [])\<rparr>"

text \<open>A click on an element, as React delivers it.\<close>

definition click_on :: "element \<Rightarrow> mouseEvent" where
  "click_on el = \<lparr>has_stopPropagation = True, target = el\<rparr>"

text \<open>A document in which the menubar is not rendered: every query is empty.\<close>

definition empty_document :: document where
  "empty_document = \<lparr>querySelectorAll = (\<lambda>selector. Some [])\<rparr>"

definition example_props :: "string option \<Rightarrow> int \<Rightarrow> bool \<Rightarrow> contextMenuDetail option \<Rightarrow> menubar_props" where
  "example_props sel idx hide detail =
     \<lparr>template = example_template, selectedLabel = sel, selectedIndex = idx,
      autohide = hide, contextMenuDetail = detail, lastFocusedSelector = Some ''webview''\<rparr>"

text \<open>A menubar whose only entry has the empty string as label, which is also the
  selected label.\<close>

definition unlabelled_props :: menubar_props where
  "unlabelled_props =
     \<lparr>template = [\<lparr>label = [], submenu = View_submenu\<rparr>], selectedLabel = Some [],
      selectedIndex = 0, autohide = False, contextMenuDetail = None,
      lastFocusedSelector = None\<rparr>"

text \<open>A menubar whose only entry has a label with an apostrophe, which is selected.\<close>

definition apostrophe_props :: menubar_props where
  "apostrophe_props =
     \<lparr>template = [\<lparr>label = ''Bob'' @ [CHR 0x27] @ ''s'', submenu = View_submenu\<rparr>],
      selectedLabel = Some (''Bob'' @ [CHR 0x27] @ ''s''),
      selectedIndex = 0, autohide = False, contextMenuDetail = None,
      lastFocusedSelector = None\<rparr>"

text \<open>An open context menu, as far as the handlers look at it: it is present.\<close>

definition open_detail :: contextMenuDetail where
  "open_detail = \<lparr>detail_left = 0, detail_top = 20, detail_template = []\<rparr>"

section \<open>Properties\<close>

subsection \<open>Lists and indices\<close>

lemma findIndex_range: "findIndex P xs = - 1 \<or> (0 \<le> findIndex P xs \<and> findIndex P xs < int (length xs))"
  by (induction xs) (auto simp: Let_def)

lemma findIndex_none_iff: "findIndex P xs = - 1 \<longleftrightarrow> (\<forall>x \<in> set xs. \<not> P x)"
proof (induction xs)
  case Nil
  show ?case by simp
next
  case (Cons x xs)
  have "findIndex P xs = - 1 \<or> 0 \<le> findIndex P xs" using findIndex_range [of P xs] by auto
  with Cons show ?case by (auto simp: Let_def)
qed

lemma findIndex_first:
  "findIndex P xs \<noteq> - 1 \<Longrightarrow> P (xs ! nat (findIndex P xs)) \<and> (\<forall>j < nat (findIndex P xs). \<not> P (xs ! j))"
proof (induction xs)
  case Nil
  then show ?case by simp
next
  case (Cons x xs)
  show ?case
  proof (cases "P x")
    case True
    then show ?thesis by simp
  next
    case False
    with Cons.prems have ne: "findIndex P xs \<noteq> - 1" by (auto simp: Let_def split: if_splits)
    then have ge: "0 \<le> findIndex P xs" using findIndex_range [of P xs] by auto
    have eq: "findIndex P (x # xs) = findIndex P xs + 1" using False ne by (simp add: Let_def)
    have nat_eq: "nat (findIndex P xs + 1) = Suc (nat (findIndex P xs))" using ge by simp
    from Cons.IH [OF ne] have ih1: "P (xs ! nat (findIndex P xs))"
      and ih2: "\<forall>j < nat (findIndex P xs). \<not> P (xs ! j)" by auto
    show ?thesis unfolding eq nat_eq using ih1 ih2 False
      by (auto simp: nth_Cons split: nat.splits)
  qed
qed

lemma nextIndex_leftRight_range:
  "template p \<noteq> [] \<Longrightarrow>
   0 \<le> nextIndex_leftRight p which \<and> nextIndex_leftRight p which < int (length (template p))"
  using findIndex_range [of "\<lambda>element. Some (label element) = selectedLabel p" "template p"]
  by (auto simp: nextIndex_leftRight_def Let_def wrappingClamp_def)

lemma List_get_in_range:
  "0 \<le> i \<Longrightarrow> i < int (length xs) \<Longrightarrow> List_get xs i = Some (xs ! nat i)"
  by (simp add: List_get_def Let_def)

lemma getTemplateByLabel_None_iff:
  "getTemplateByLabel p l = None \<longleftrightarrow> (\<forall>element \<in> set (template p). Some (label element) \<noteq> l)"
proof -
  have "getTemplateByLabel p l = None
        \<longleftrightarrow> List.find (\<lambda>element. Some (label element) = l) (template p) = None"
    by (simp add: getTemplateByLabel_def split: option.splits)
  also have "\<dots> \<longleftrightarrow> (\<forall>element \<in> set (template p). Some (label element) \<noteq> l)"
    unfolding find_None_iff by blast
  finally show ?thesis .
qed

lemma getTemplateByLabel_member:
  "element \<in> set (template p) \<Longrightarrow> getTemplateByLabel p (Some (label element)) \<noteq> None"
  by (auto simp: getTemplateByLabel_None_iff)

lemma nextLabel_leftRight:
  assumes "template p \<noteq> []"
  shows "map_option label (List_get (template p) (nextIndex_leftRight p which))
         = Some (label (template p ! nat (nextIndex_leftRight p which)))"
    and "getTemplateByLabel p (map_option label (List_get (template p) (nextIndex_leftRight p which))) \<noteq> None"
proof -
  from nextIndex_leftRight_range [OF assms, of which]
  have r: "0 \<le> nextIndex_leftRight p which" "nextIndex_leftRight p which < int (length (template p))"
    by auto
  show eq: "map_option label (List_get (template p) (nextIndex_leftRight p which))
         = Some (label (template p ! nat (nextIndex_leftRight p which)))"
    using r by (simp add: List_get_in_range)
  have "template p ! nat (nextIndex_leftRight p which) \<in> set (template p)"
    using r by (simp add: nat_less_iff)
  then show "getTemplateByLabel p (map_option label (List_get (template p) (nextIndex_leftRight p which))) \<noteq> None"
    unfolding eq by (rule getTemplateByLabel_member)
qed

lemma onKeyDown_enter_no_exn: "snd (onKeyDown_enter p) = None"
  by (auto simp: onKeyDown_enter_def selectedTemplateItemsOnly_def Let_def split: option.splits sum.splits)

lemma getRectByLabel_raises: "getRectByLabel doc l = Inl ex \<Longrightarrow> ex = SyntaxError"
  by (auto simp: getRectByLabel_def split: option.splits)

lemma onKeyDown_leftRight_no_TypeError: "snd (onKeyDown_leftRight doc p which) \<noteq> Some TypeError"
proof (cases "template p = []")
  case True
  then show ?thesis by (simp add: onKeyDown_leftRight_def)
next
  case False
  from nextLabel_leftRight(2) [OF False, of which] show ?thesis
    by (auto simp: onKeyDown_leftRight_def Let_def split: option.splits sum.splits
        dest: getRectByLabel_raises)
qed

lemma onKeyDown_upDown_no_TypeError: "snd (onKeyDown_upDown doc p which) \<noteq> Some TypeError"
  by (auto simp: onKeyDown_upDown_def selectedIndexMax_def selectedTemplateItemsOnly_def Let_def
      selectedRect_def split: option.splits sum.splits if_splits dest: getRectByLabel_raises)

subsection \<open>Unfolding the model\<close>

lemmas key_defs = keyCodes_ENTER_def keyCodes_LEFT_def keyCodes_UP_def keyCodes_RIGHT_def
  keyCodes_DOWN_def

lemmas example_defs = example_props_def example_template_def example_document_def
  File_submenu_def View_submenu_def File_rect_def Edit_rect_def View_rect_def webview_def
  open_detail_def empty_document_def File_element_def Edit_element_def View_element_def
  click_on_def unlabelled_props_def apostrophe_props_def

lemmas menubar_defs = onKeyDown_def onKeyDown_enter_def onKeyDown_leftRight_def
  onKeyDown_upDown_def nextIndex_leftRight_def selectedTemplate_def getTemplateByLabel_def
  selectedTemplateItemsOnly_def selectedIndexMax_def itemsOnly_def getRectByLabel_def
  selectedRect_def showContextMenu_def wrap_submenuItem_def separatorMenuItem_type_def
  truthy_def toString_label_def wrappingClamp_def List_get_def

subsection \<open>Left and Right: the next top-level label\<close>

text \<open>
  C3, as the code has it. In the Left/Right branch with a non-empty template, when
  autohide is enabled or a label is already selected (the precondition of line 139), the
  next top-level index is 0 when nothing in the template is selected (no entry carries
  the selected label: \<open>findIndex\<close> gives \<open>-1\<close>), and otherwise the index of the
  selected entry plus or minus one, clamped with wrap-around into \<open>[0, length - 1]\<close>:
  Right from the last index gives 0, Left from index 0 gives the last index. When the
  lookup of the rectangle of the label at that index returns (line 156), that label is
  dispatched as the selected label, right after \<open>preventDefault\<close>, no other label is
  dispatched, and the handler ends normally.
\<close>

theorem onKeyDown_leftRight_next_label:
  assumes key: "which = keyCodes_LEFT \<or> which = keyCodes_RIGHT"
    and pre: "autohide p \<or> truthy (selectedLabel p)"
    and ne: "template p \<noteq> []"
  shows
    "(let i = findIndex (\<lambda>element. Some (label element) = selectedLabel p) (template p);
          n = int (length (template p));
          next = (if i = - 1 then 0
                  else wrappingClamp (i + (if which = keyCodes_LEFT then - 1 else 1)) 0 (n - 1))
      in 0 \<le> next \<and> next < n
         \<and> (i = - 1 \<longleftrightarrow> (\<forall>element \<in> set (template p). Some (label element) \<noteq> selectedLabel p))
         \<and> (i \<noteq> - 1 \<longrightarrow> Some (label (template p ! nat i)) = selectedLabel p)
         \<and> (i \<noteq> - 1 \<and> which = keyCodes_RIGHT \<longrightarrow> next = (if i = n - 1 then 0 else i + 1))
         \<and> (i \<noteq> - 1 \<and> which = keyCodes_LEFT \<longrightarrow> next = (if i = 0 then n - 1 else i - 1))
         \<and> (\<forall>nextRect.
               getRectByLabel doc (Some (label (template p ! nat next))) = Inr nextRect \<longrightarrow>
               (\<exists>rest.
                  onKeyDown doc p which
                    = (PreventDefault
                       # Dispatch (SetMenubarSelectedLabel (Some (label (template p ! nat next))))
                       # rest, None)
                  \<and> (\<forall>l. Dispatch (SetMenubarSelectedLabel l) \<notin> set rest))))"
proof -
  let ?i = "findIndex (\<lambda>element. Some (label element) = selectedLabel p) (template p)"
  let ?n = "int (length (template p))"
  let ?next = "nextIndex_leftRight p which"
  have next_eq: "?next = (if ?i = - 1 then 0
       else wrappingClamp (?i + (if which = keyCodes_LEFT then - 1 else 1)) 0 (?n - 1))"
    by (simp add: nextIndex_leftRight_def Let_def)
  have range: "0 \<le> ?next" "?next < ?n"
    using nextIndex_leftRight_range [OF ne, of which] by auto
  have irange: "?i = - 1 \<or> (0 \<le> ?i \<and> ?i < ?n)"
    by (rule findIndex_range)
  have none: "?i = - 1 \<longleftrightarrow> (\<forall>element \<in> set (template p). Some (label element) \<noteq> selectedLabel p)"
    by (rule findIndex_none_iff)
  have first: "?i \<noteq> - 1 \<longrightarrow> Some (label (template p ! nat ?i)) = selectedLabel p"
    using findIndex_first [of "\<lambda>element. Some (label element) = selectedLabel p" "template p"]
    by blast
  have right: "?i \<noteq> - 1 \<and> which = keyCodes_RIGHT \<longrightarrow> ?next = (if ?i = ?n - 1 then 0 else ?i + 1)"
    using irange unfolding next_eq by (auto simp: wrappingClamp_def key_defs)
  have left: "?i \<noteq> - 1 \<and> which = keyCodes_LEFT \<longrightarrow> ?next = (if ?i = 0 then ?n - 1 else ?i - 1)"
    using irange unfolding next_eq by (auto simp: wrappingClamp_def key_defs)
  have lab: "map_option label (List_get (template p) ?next) = Some (label (template p ! nat ?next))"
    by (rule nextLabel_leftRight(1) [OF ne])
  have sub: "getTemplateByLabel p (Some (label (template p ! nat ?next))) \<noteq> None"
    using nextLabel_leftRight(2) [OF ne, of which] unfolding lab .
  have sw: "onKeyDown doc p which = onKeyDown_leftRight doc p which"
    using key by (auto simp: onKeyDown_def key_defs)
  have len: "int (length (template p)) > 0" using ne by simp
  have disp: "\<forall>nextRect.
      getRectByLabel doc (Some (label (template p ! nat ?next))) = Inr nextRect \<longrightarrow>
      (\<exists>rest.
         onKeyDown_leftRight doc p which
           = (PreventDefault
              # Dispatch (SetMenubarSelectedLabel (Some (label (template p ! nat ?next))))
              # rest, None)
         \<and> (\<forall>l. Dispatch (SetMenubarSelectedLabel l) \<notin> set rest))"
    using pre len sub
    by (auto simp: onKeyDown_leftRight_def Let_def lab showContextMenu_def split: option.splits)
  show ?thesis
    unfolding Let_def next_eq [symmetric] sw
    using range none first right left disp by blast
qed

theorem onKeyDown_leftRight_next_label_witness:
  "(keyCodes_RIGHT = keyCodes_LEFT \<or> keyCodes_RIGHT = keyCodes_RIGHT)
   \<and> (autohide (example_props (Some ''View'') 0 False None)
        \<or> truthy (selectedLabel (example_props (Some ''View'') 0 False None)))
   \<and> template (example_props (Some ''View'') 0 False None) \<noteq> []
   \<and> getRectByLabel example_document (Some ''File'') = Inr (Some File_rect)
   \<and> onKeyDown example_document (example_props (Some ''View'') 0 False None) keyCodes_RIGHT
       = ([PreventDefault, Dispatch (SetMenubarSelectedLabel (Some ''File''))], None)"
  using onKeyDown_leftRight_next_label
    [of keyCodes_RIGHT "example_props (Some ''View'') 0 False None" example_document]
  by (simp add: menubar_defs example_defs key_defs)

text \<open>
  C3, as stated, fails when the precondition of line 139 does not hold: with a
  non-empty template, autohide off and nothing selected, the next index would be 0 and
  the rectangle of "File" resolves, but Right dispatches nothing.
\<close>

theorem onKeyDown_leftRight_next_label_counterexample:
  "template (example_props None 0 False None) \<noteq> []
   \<and> selectedLabel (example_props None 0 False None) = None
   \<and> nextIndex_leftRight (example_props None 0 False None) keyCodes_RIGHT = 0
   \<and> map_option label (List_get (template (example_props None 0 False None)) 0) = Some ''File''
   \<and> getRectByLabel example_document (Some ''File'') = Inr (Some File_rect)
   \<and> onKeyDown example_document (example_props None 0 False None) keyCodes_RIGHT = ([], None)"
  by (simp add: menubar_defs example_defs key_defs)

subsection \<open>Enter\<close>

text \<open>
  C4. In the Enter branch, whenever a selected template exists the handler dispatches
  "submenu item clicked" with the label at position \<open>selectedIndex\<close> within the selected
  visible items (\<open>getIn\<close> of Immutable; for an index within range, the label of the item
  at that position), followed by "reset menu state"; when no selected template exists,
  neither is dispatched.
\<close>

theorem onKeyDown_enter_dispatch:
  "(selectedTemplate p \<noteq> None \<longrightarrow>
      (\<exists>selectedVisibleItems.
         selectedTemplateItemsOnly p = Inr selectedVisibleItems
         \<and> onKeyDown doc p keyCodes_ENTER
             = ([PreventDefault,
                 Dispatch (ClickMenubarSubmenu
                   (Option.bind (List_get selectedVisibleItems (selectedIndex p)) item_label)),
                 Dispatch ResetMenuState], None)
         \<and> (0 \<le> selectedIndex p \<and> selectedIndex p < int (length selectedVisibleItems) \<longrightarrow>
              Option.bind (List_get selectedVisibleItems (selectedIndex p)) item_label
              = item_label (selectedVisibleItems ! nat (selectedIndex p)))))
   \<and> (selectedTemplate p = None \<longrightarrow> onKeyDown doc p keyCodes_ENTER = ([PreventDefault], None))"
  by (auto simp: onKeyDown_def onKeyDown_enter_def selectedTemplateItemsOnly_def
      List_get_in_range split: option.splits)

theorem onKeyDown_enter_dispatch_witness:
  "selectedTemplate (example_props (Some ''File'') 1 False (Some open_detail)) \<noteq> None
   \<and> selectedTemplate (example_props (Some ''Help'') 1 False (Some open_detail)) = None
   \<and> onKeyDown example_document (example_props (Some ''File'') 1 False (Some open_detail))
        keyCodes_ENTER
      = ([PreventDefault, Dispatch (ClickMenubarSubmenu (Some ''Quit'')),
          Dispatch ResetMenuState], None)
   \<and> onKeyDown example_document (example_props (Some ''Help'') 1 False (Some open_detail))
        keyCodes_ENTER
      = ([PreventDefault], None)"
  using onKeyDown_enter_dispatch
      [of "example_props (Some ''File'') 1 False (Some open_detail)" example_document]
    onKeyDown_enter_dispatch
      [of "example_props (Some ''Help'') 1 False (Some open_detail)" example_document]
  by (simp add: menubar_defs example_defs key_defs)

subsection \<open>The selected visible items\<close>

text \<open>
  C7. For every selected template, the selected visible items are that template
  filtered, in order: separator entries are excluded, entries whose explicit visible flag
  is false are excluded, and the other entries whose visible flag is true or that have no
  visible key are included.
\<close>

theorem selectedTemplateItemsOnly_filter:
  assumes "selectedTemplate p = Some sub"
  shows "\<exists>selectedVisibleItems.
     selectedTemplateItemsOnly p = Inr selectedVisibleItems
     \<and> selectedVisibleItems
         = filter (\<lambda>element. item_type element \<noteq> separatorMenuItem_type
                     \<and> item_visible element \<noteq> Some False) sub
     \<and> (\<forall>element \<in> set sub.
          (item_type element = separatorMenuItem_type \<longrightarrow> element \<notin> set selectedVisibleItems)
          \<and> (item_visible element = Some False \<longrightarrow> element \<notin> set selectedVisibleItems)
          \<and> (item_type element \<noteq> separatorMenuItem_type \<and> item_visible element = Some True
               \<longrightarrow> element \<in> set selectedVisibleItems)
          \<and> (item_type element \<noteq> separatorMenuItem_type \<and> item_visible element = None
               \<longrightarrow> element \<in> set selectedVisibleItems))"
proof -
  have pred: "itemsOnly = (\<lambda>element. item_type element \<noteq> separatorMenuItem_type
                     \<and> item_visible element \<noteq> Some False)"
    by (auto simp: itemsOnly_def fun_eq_iff split: option.splits)
  show ?thesis
    using assms by (auto simp: selectedTemplateItemsOnly_def pred)
qed

theorem selectedTemplateItemsOnly_filter_witness:
  "selectedTemplate (example_props (Some ''File'') 0 False None) = Some File_submenu
   \<and> selectedTemplateItemsOnly (example_props (Some ''File'') 0 False None)
      = Inr [\<lparr>item_type = None, item_label = Some ''New Tab'', item_visible = None,
              item_click = HostClick 0\<rparr>,
             \<lparr>item_type = None, item_label = Some ''Quit'', item_visible = Some True,
              item_click = HostClick 2\<rparr>]"
proof -
  have h: "selectedTemplate (example_props (Some ''File'') 0 False None) = Some File_submenu"
    by (simp add: selectedTemplate_def getTemplateByLabel_def example_props_def
        example_template_def)
  from selectedTemplateItemsOnly_filter [OF h] h show ?thesis
    by (auto simp: File_submenu_def separatorMenuItem_type_def)
qed

subsection \<open>Consuming the key event\<close>

text \<open>
  C8. For every keydown event: the Enter branch calls \<open>preventDefault\<close> before it
  dispatches anything; the Left/Right and Up/Down branches call \<open>preventDefault\<close> if
  and only if autohide is enabled or a label is already selected, first of all their
  effects, and when that precondition fails they dispatch nothing and do not consume the
  event; any other key leaves the event unconsumed and dispatches nothing.
\<close>

theorem onKeyDown_preventDefault:
  "(which = keyCodes_ENTER \<longrightarrow>
      (\<exists>rest. fst (onKeyDown doc p which) = PreventDefault # rest
         \<and> (\<forall>x \<in> set rest. \<exists>a. x = Dispatch a)))
   \<and> (which \<in> {keyCodes_LEFT, keyCodes_RIGHT, keyCodes_UP, keyCodes_DOWN} \<longrightarrow>
        (PreventDefault \<in> set (fst (onKeyDown doc p which))
           \<longleftrightarrow> autohide p \<or> truthy (selectedLabel p))
        \<and> (autohide p \<or> truthy (selectedLabel p) \<longrightarrow>
             (\<exists>rest. fst (onKeyDown doc p which) = PreventDefault # rest
                \<and> (\<forall>x \<in> set rest. \<exists>a. x = Dispatch a)))
        \<and> (\<not> (autohide p \<or> truthy (selectedLabel p)) \<longrightarrow>
             onKeyDown doc p which = ([], None)))
   \<and> (which \<notin> {keyCodes_ENTER, keyCodes_LEFT, keyCodes_RIGHT, keyCodes_UP, keyCodes_DOWN} \<longrightarrow>
        onKeyDown doc p which = ([], None))"
proof -
  have enter: "\<exists>rest. fst (onKeyDown_enter p) = PreventDefault # rest
         \<and> (\<forall>x \<in> set rest. \<exists>a. x = Dispatch a)"
    by (auto simp: onKeyDown_enter_def selectedTemplateItemsOnly_def Let_def
        split: option.splits)
  have lr: "autohide p \<or> truthy (selectedLabel p) \<Longrightarrow>
      \<exists>rest. fst (onKeyDown_leftRight doc p w) = PreventDefault # rest
         \<and> (\<forall>x \<in> set rest. \<exists>a. x = Dispatch a)" for w
    by (auto simp: onKeyDown_leftRight_def Let_def showContextMenu_def
        split: option.splits sum.splits)
  have ud: "autohide p \<or> truthy (selectedLabel p) \<Longrightarrow>
      \<exists>rest. fst (onKeyDown_upDown doc p w) = PreventDefault # rest
         \<and> (\<forall>x \<in> set rest. \<exists>a. x = Dispatch a)" for w
    by (auto simp: onKeyDown_upDown_def Let_def showContextMenu_def selectedIndexMax_def
        selectedTemplateItemsOnly_def split: option.splits sum.splits if_splits)
  have lr0: "\<not> (autohide p \<or> truthy (selectedLabel p)) \<Longrightarrow>
      onKeyDown_leftRight doc p w = ([], None)" for w
    by (simp add: onKeyDown_leftRight_def)
  have ud0: "\<not> (autohide p \<or> truthy (selectedLabel p)) \<Longrightarrow>
      onKeyDown_upDown doc p w = ([], None)" for w
    by (simp add: onKeyDown_upDown_def)
  have c1: "which = keyCodes_ENTER \<longrightarrow>
      (\<exists>rest. fst (onKeyDown doc p which) = PreventDefault # rest
         \<and> (\<forall>x \<in> set rest. \<exists>a. x = Dispatch a))"
    using enter by (simp add: onKeyDown_def)
  have sw: "which \<in> {keyCodes_LEFT, keyCodes_RIGHT, keyCodes_UP, keyCodes_DOWN} \<Longrightarrow>
      onKeyDown doc p which = onKeyDown_leftRight doc p which
      \<or> onKeyDown doc p which = onKeyDown_upDown doc p which"
    by (auto simp: onKeyDown_def key_defs)
  have c2: "which \<in> {keyCodes_LEFT, keyCodes_RIGHT, keyCodes_UP, keyCodes_DOWN} \<longrightarrow>
        (PreventDefault \<in> set (fst (onKeyDown doc p which))
           \<longleftrightarrow> autohide p \<or> truthy (selectedLabel p))
        \<and> (autohide p \<or> truthy (selectedLabel p) \<longrightarrow>
             (\<exists>rest. fst (onKeyDown doc p which) = PreventDefault # rest
                \<and> (\<forall>x \<in> set rest. \<exists>a. x = Dispatch a)))
        \<and> (\<not> (autohide p \<or> truthy (selectedLabel p)) \<longrightarrow>
             onKeyDown doc p which = ([], None))"
  proof
    assume k: "which \<in> {keyCodes_LEFT, keyCodes_RIGHT, keyCodes_UP, keyCodes_DOWN}"
    show "(PreventDefault \<in> set (fst (onKeyDown doc p which))
           \<longleftrightarrow> autohide p \<or> truthy (selectedLabel p))
        \<and> (autohide p \<or> truthy (selectedLabel p) \<longrightarrow>
             (\<exists>rest. fst (onKeyDown doc p which) = PreventDefault # rest
                \<and> (\<forall>x \<in> set rest. \<exists>a. x = Dispatch a)))
        \<and> (\<not> (autohide p \<or> truthy (selectedLabel p)) \<longrightarrow>
             onKeyDown doc p which = ([], None))"
    proof (cases "autohide p \<or> truthy (selectedLabel p)")
      case True
      from sw [OF k] lr [OF True, of which] ud [OF True, of which]
      obtain rest where "fst (onKeyDown doc p which) = PreventDefault # rest"
        "\<forall>x \<in> set rest. \<exists>a. x = Dispatch a" by auto
      with True show ?thesis by auto
    next
      case False
      from sw [OF k] lr0 [OF False, of which] ud0 [OF False, of which]
      have "onKeyDown doc p which = ([], None)" by auto
      with False show ?thesis by simp
    qed
  qed
  have c3: "which \<notin> {keyCodes_ENTER, keyCodes_LEFT, keyCodes_RIGHT, keyCodes_UP, keyCodes_DOWN} \<longrightarrow>
        onKeyDown doc p which = ([], None)"
    by (simp add: onKeyDown_def)
  from c1 c2 c3 show ?thesis by blast
qed

theorem onKeyDown_preventDefault_witness:
  "keyCodes_LEFT \<in> {keyCodes_LEFT, keyCodes_RIGHT, keyCodes_UP, keyCodes_DOWN}
   \<and> \<not> (autohide (example_props None 0 False None)
          \<or> truthy (selectedLabel (example_props None 0 False None)))
   \<and> onKeyDown example_document (example_props None 0 False None) keyCodes_LEFT = ([], None)
   \<and> (autohide (example_props None 0 True None)
          \<or> truthy (selectedLabel (example_props None 0 True None)))
   \<and> PreventDefault \<in> set (fst (onKeyDown example_document (example_props None 0 True None)
         keyCodes_LEFT))
   \<and> (65::nat) \<notin> {keyCodes_ENTER, keyCodes_LEFT, keyCodes_RIGHT, keyCodes_UP, keyCodes_DOWN}
   \<and> onKeyDown example_document (example_props None 0 True None) 65 = ([], None)
   \<and> fst (onKeyDown example_document (example_props None 0 False None) keyCodes_ENTER)
       = [PreventDefault]"
  using onKeyDown_preventDefault [of keyCodes_LEFT example_document "example_props None 0 False None"]
    onKeyDown_preventDefault [of keyCodes_LEFT example_document "example_props None 0 True None"]
    onKeyDown_preventDefault [of 65 example_document "example_props None 0 True None"]
    onKeyDown_preventDefault [of keyCodes_ENTER example_document "example_props None 0 False None"]
  by (simp add: menubar_defs example_defs key_defs)

subsection \<open>Left and Right: opening the next context menu\<close>

text \<open>
  C1, as the code has it. In the Left/Right branch (precondition of line 139, non-empty
  template), when the lookup of the new label's rectangle returns (line 156), the next
  top-level label is dispatched as selected, and after that the handler resets the
  submenu selected index to 0 and opens a context menu anchored at the new label's
  rectangle, showing the submenu found for the new label, if and only if a context menu is
  already open, the label selected before the key press has a template
  (\<open>this.selectedTemplate\<close> of line 161 is read from the props the handler was called
  with, and is not \<open>null\<close>; it may be empty), and the new label's rectangle is
  resolvable. Otherwise nothing follows the dispatch of the label.
\<close>

theorem onKeyDown_leftRight_auto_open:
  assumes key: "which = keyCodes_LEFT \<or> which = keyCodes_RIGHT"
    and pre: "autohide p \<or> truthy (selectedLabel p)"
    and ne: "template p \<noteq> []"
  shows "\<exists>nextLabel.
     nextLabel = Some (label (template p ! nat (nextIndex_leftRight p which)))
     \<and> (\<forall>nextRect. getRectByLabel doc nextLabel = Inr nextRect \<longrightarrow>
          (contextMenuDetail p \<noteq> None \<and> selectedTemplate p \<noteq> None \<and> nextRect \<noteq> None \<longrightarrow>
             (\<exists>r sub.
                nextRect = Some r
                \<and> getTemplateByLabel p nextLabel = Some sub
                \<and> onKeyDown doc p which
                    = ([PreventDefault,
                        Dispatch (SetMenubarSelectedLabel nextLabel),
                        Dispatch (SetSubmenuSelectedIndex 0),
                        Dispatch (SetContextMenuDetail (Some
                          \<lparr>detail_left = rect_left r,
                           detail_top = rect_bottom r,
                           detail_template =
                             map (wrap_submenuItem (lastFocusedSelector p)) sub\<rparr>))],
                       None)))
          \<and> (\<not> (contextMenuDetail p \<noteq> None \<and> selectedTemplate p \<noteq> None
                  \<and> nextRect \<noteq> None) \<longrightarrow>
               onKeyDown doc p which
                 = ([PreventDefault, Dispatch (SetMenubarSelectedLabel nextLabel)], None)))"
proof -
  let ?l = "map_option label (List_get (template p) (nextIndex_leftRight p which))"
  have lab: "?l = Some (label (template p ! nat (nextIndex_leftRight p which)))"
    by (rule nextLabel_leftRight(1) [OF ne])
  have sub: "getTemplateByLabel p ?l \<noteq> None"
    by (rule nextLabel_leftRight(2) [OF ne])
  have sw: "onKeyDown doc p which = onKeyDown_leftRight doc p which"
    using key by (auto simp: onKeyDown_def key_defs)
  have len: "int (length (template p)) > 0" using ne by simp
  have "\<forall>nextRect. getRectByLabel doc ?l = Inr nextRect \<longrightarrow>
          (contextMenuDetail p \<noteq> None \<and> selectedTemplate p \<noteq> None \<and> nextRect \<noteq> None \<longrightarrow>
             (\<exists>r sub.
                nextRect = Some r
                \<and> getTemplateByLabel p ?l = Some sub
                \<and> onKeyDown_leftRight doc p which
                    = ([PreventDefault,
                        Dispatch (SetMenubarSelectedLabel ?l),
                        Dispatch (SetSubmenuSelectedIndex 0),
                        Dispatch (SetContextMenuDetail (Some
                          \<lparr>detail_left = rect_left r,
                           detail_top = rect_bottom r,
                           detail_template =
                             map (wrap_submenuItem (lastFocusedSelector p)) sub\<rparr>))],
                       None)))
          \<and> (\<not> (contextMenuDetail p \<noteq> None \<and> selectedTemplate p \<noteq> None
                  \<and> nextRect \<noteq> None) \<longrightarrow>
               onKeyDown_leftRight doc p which
                 = ([PreventDefault, Dispatch (SetMenubarSelectedLabel ?l)], None))"
    using pre len sub
    by (auto simp: onKeyDown_leftRight_def Let_def showContextMenu_def split: option.splits)
  then show ?thesis unfolding sw lab by blast
qed

theorem onKeyDown_leftRight_auto_open_witness:
  "(keyCodes_RIGHT = keyCodes_LEFT \<or> keyCodes_RIGHT = keyCodes_RIGHT)
   \<and> (autohide (example_props (Some ''Edit'') 0 False (Some open_detail))
        \<or> truthy (selectedLabel (example_props (Some ''Edit'') 0 False (Some open_detail))))
   \<and> template (example_props (Some ''Edit'') 0 False (Some open_detail)) \<noteq> []
   \<and> contextMenuDetail (example_props (Some ''Edit'') 0 False (Some open_detail)) \<noteq> None
   \<and> selectedTemplate (example_props (Some ''Edit'') 0 False (Some open_detail)) \<noteq> None
   \<and> getRectByLabel example_document (Some ''View'') = Inr (Some View_rect)
   \<and> onKeyDown example_document (example_props (Some ''Edit'') 0 False (Some open_detail))
        keyCodes_RIGHT
      = ([PreventDefault,
          Dispatch (SetMenubarSelectedLabel (Some ''View'')),
          Dispatch (SetSubmenuSelectedIndex 0),
          Dispatch (SetContextMenuDetail (Some
            \<lparr>detail_left = 80, detail_top = 20,
             detail_template =
               [\<lparr>item_type = None, item_label = Some ''Zoom In'', item_visible = None,
                 item_click = MenubarClick (Some ''webview'') (Some ''Zoom In'')\<rparr>]\<rparr>))],
         None)
   \<and> \<not> (contextMenuDetail (example_props (Some ''Edit'') 0 False None) \<noteq> None)
   \<and> onKeyDown example_document (example_props (Some ''Edit'') 0 False None) keyCodes_RIGHT
      = ([PreventDefault, Dispatch (SetMenubarSelectedLabel (Some ''View''))], None)"
  using onKeyDown_leftRight_auto_open
      [of keyCodes_RIGHT "example_props (Some ''Edit'') 0 False (Some open_detail)"
          example_document]
    onKeyDown_leftRight_auto_open
      [of keyCodes_RIGHT "example_props (Some ''Edit'') 0 False None" example_document]
  by (simp add: menubar_defs example_defs key_defs)

text \<open>
  C1, as stated, fails in both directions. With autohide on, no label selected, a
  context menu open, and a resolvable rectangle for "File", whose submenu is not empty,
  Right selects "File" and opens nothing. With "File" selected and a context menu open,
  Right selects "Edit", whose submenu is empty, and opens a context menu with an empty
  template.
\<close>

theorem onKeyDown_leftRight_auto_open_counterexample:
  "contextMenuDetail (example_props None 0 True (Some open_detail)) \<noteq> None
   \<and> getTemplateByLabel (example_props None 0 True (Some open_detail)) (Some ''File'')
       = Some File_submenu
   \<and> File_submenu \<noteq> []
   \<and> getRectByLabel example_document (Some ''File'') = Inr (Some File_rect)
   \<and> onKeyDown example_document (example_props None 0 True (Some open_detail)) keyCodes_RIGHT
       = ([PreventDefault, Dispatch (SetMenubarSelectedLabel (Some ''File''))], None)
   \<and> getTemplateByLabel (example_props (Some ''File'') 0 False (Some open_detail)) (Some ''Edit'')
       = Some []
   \<and> getRectByLabel example_document (Some ''Edit'') = Inr (Some Edit_rect)
   \<and> onKeyDown example_document (example_props (Some ''File'') 0 False (Some open_detail))
        keyCodes_RIGHT
       = ([PreventDefault,
           Dispatch (SetMenubarSelectedLabel (Some ''Edit'')),
           Dispatch (SetSubmenuSelectedIndex 0),
           Dispatch (SetContextMenuDetail (Some
             \<lparr>detail_left = 40, detail_top = 20, detail_template = []\<rparr>))],
          None)"
  by (simp add: menubar_defs example_defs key_defs)

subsection \<open>Up and Down\<close>

text \<open>
  C2. The claim has the submenu selection moved only when a context menu is already
  open, an unavailable rectangle leaving the handler without effect. The \<open>else\<close> of
  line 178, whose comment reads "Context menu already visible", is also taken when no
  context menu is open and the rectangle of the selected label does not resolve: with
  "File" selected, no context menu, and a document without the menubar's elements, Down
  dispatches the submenu index 1.
\<close>

theorem onKeyDown_upDown_moves_without_context_menu:
  "(autohide (example_props (Some ''File'') 0 False None)
      \<or> truthy (selectedLabel (example_props (Some ''File'') 0 False None)))
   \<and> selectedTemplate (example_props (Some ''File'') 0 False None) = Some File_submenu
   \<and> contextMenuDetail (example_props (Some ''File'') 0 False None) = None
   \<and> selectedRect empty_document (example_props (Some ''File'') 0 False None) = Inr None
   \<and> onKeyDown empty_document (example_props (Some ''File'') 0 False None) keyCodes_DOWN
       = ([PreventDefault, Dispatch (SetSubmenuSelectedIndex 1)], None)"
  by (simp add: menubar_defs example_defs key_defs)

subsection \<open>showContextMenu\<close>

text \<open>
  C5. \<open>showContextMenu rect submenu lastFocusedSelector\<close> dispatches a single
  set-context-menu-detail intent, positioned at \<open>rect.left\<close> and \<open>rect.bottom\<close>,
  whose template has an entry for each entry of the submenu: a separator entry unchanged,
  and any other entry with its click handler replaced by one that prevents default,
  focuses the element matching \<open>lastFocusedSelector\<close> only when the selector is given
  and exactly one element matches, and then dispatches "submenu item clicked" with the
  entry's label. (Should the document refuse \<open>lastFocusedSelector\<close>, which the host
  supplies as a selector, the handler is ended by the query after \<open>preventDefault\<close>.)
\<close>

theorem showContextMenu_dispatch:
  "\<exists>t. showContextMenu r sub lastFocused
          = [Dispatch (SetContextMenuDetail (Some
               \<lparr>detail_left = rect_left r, detail_top = rect_bottom r, detail_template = t\<rparr>))]
     \<and> length t = length sub
     \<and> (\<forall>i < length sub.
          (item_type (sub ! i) = separatorMenuItem_type \<longrightarrow> t ! i = sub ! i)
          \<and> (item_type (sub ! i) \<noteq> separatorMenuItem_type \<longrightarrow>
               t ! i = (sub ! i)\<lparr>item_click := MenubarClick lastFocused (item_label (sub ! i))\<rparr>
               \<and> (\<forall>doc. run_click doc (item_click (t ! i))
                     = Some
                        (case (if truthy lastFocused
                               then querySelectorAll doc (toString_label lastFocused)
                               else Some []) of
                           Some results \<Rightarrow>
                             ([PreventDefault]
                              @ (if truthy lastFocused \<and> length results = 1
                                 then [Focus (results ! 0)]
                                 else [])
                              @ [Dispatch (ClickMenubarSubmenu (item_label (sub ! i)))],
                              None)
                         | None \<Rightarrow> ([PreventDefault], Some SyntaxError)))))"
  by (auto simp: showContextMenu_def wrap_submenuItem_def submenuItem_click_def
      split: option.splits)

theorem showContextMenu_dispatch_witness:
  "showContextMenu File_rect File_submenu (Some ''webview'')
     = [Dispatch (SetContextMenuDetail (Some
          \<lparr>detail_left = 0, detail_top = 20,
           detail_template =
             [\<lparr>item_type = None, item_label = Some ''New Tab'', item_visible = None,
               item_click = MenubarClick (Some ''webview'') (Some ''New Tab'')\<rparr>,
              \<lparr>item_type = Some ''separator'', item_label = None, item_visible = Some True,
               item_click = NoClick\<rparr>,
              \<lparr>item_type = None, item_label = Some ''Print'', item_visible = Some False,
               item_click = MenubarClick (Some ''webview'') (Some ''Print'')\<rparr>,
              \<lparr>item_type = None, item_label = Some ''Quit'', item_visible = Some True,
               item_click = MenubarClick (Some ''webview'') (Some ''Quit'')\<rparr>]\<rparr>))]
   \<and> (0::nat) < length File_submenu
   \<and> item_type (File_submenu ! 0) \<noteq> separatorMenuItem_type
   \<and> run_click example_document (MenubarClick (Some ''webview'') (Some ''New Tab''))
       = Some ([PreventDefault, Focus webview, Dispatch (ClickMenubarSubmenu (Some ''New Tab''))],
               None)
   \<and> run_click empty_document (MenubarClick (Some ''webview'') (Some ''New Tab''))
       = Some ([PreventDefault, Dispatch (ClickMenubarSubmenu (Some ''New Tab''))], None)
   \<and> run_click example_document (MenubarClick None (Some ''New Tab''))
       = Some ([PreventDefault, Dispatch (ClickMenubarSubmenu (Some ''New Tab''))], None)
   \<and> run_click example_document (MenubarClick (Some ''webview['') (Some ''New Tab''))
       = Some ([PreventDefault], Some SyntaxError)"
  using showContextMenu_dispatch [of File_rect File_submenu "Some ''webview''"]
  by (simp add: menubar_defs example_defs submenuItem_click_def)

subsection \<open>MenubarItem.onClick\<close>

text \<open>
  C6, as the code has it. If the parent's selected label is truthy (present and not the
  empty string) and equals this item's label, \<open>onClick\<close> dispatches exactly a clear of
  the context-menu detail and a clear of the selected label, and opens no context menu;
  otherwise it dispatches this label as the new selected label and opens a context menu
  anchored at the bounding rectangle of the clicked element.
\<close>

theorem onClick_toggle:
  "(truthy (selectedLabel (props_menubar props))
      \<and> selectedLabel (props_menubar props) = Some (props_label props) \<longrightarrow>
      onClick props (Some e)
        = ((if has_stopPropagation e then [StopPropagation] else [])
           @ [Dispatch (SetContextMenuDetail None), Dispatch (SetMenubarSelectedLabel None)],
           None))
   \<and> (\<not> (truthy (selectedLabel (props_menubar props))
           \<and> selectedLabel (props_menubar props) = Some (props_label props)) \<longrightarrow>
      onClick props (Some e)
        = ((if has_stopPropagation e then [StopPropagation] else [])
           @ [Dispatch (SetMenubarSelectedLabel (Some (props_label props))),
              Dispatch (SetContextMenuDetail (Some
                \<lparr>detail_left = rect_left (boundingClientRect (target e)),
                 detail_top = rect_bottom (boundingClientRect (target e)),
                 detail_template =
                   map (wrap_submenuItem (props_lastFocusedSelector props))
                     (props_submenu props)\<rparr>))],
           None))"
  by (auto simp: onClick_def showContextMenu_def Let_def)

theorem onClick_toggle_witness:
  "truthy (selectedLabel (props_menubar
       (render_props (example_props (Some ''View'') 0 False (Some open_detail))
          \<lparr>label = ''View'', submenu = View_submenu\<rparr>)))
   \<and> onClick (render_props (example_props (Some ''View'') 0 False (Some open_detail))
          \<lparr>label = ''View'', submenu = View_submenu\<rparr>) (Some (click_on View_element))
      = ([StopPropagation, Dispatch (SetContextMenuDetail None),
          Dispatch (SetMenubarSelectedLabel None)], None)
   \<and> selectedLabel (props_menubar
       (render_props (example_props (Some ''File'') 0 False (Some open_detail))
          \<lparr>label = ''View'', submenu = View_submenu\<rparr>)) \<noteq> Some ''View''
   \<and> onClick (render_props (example_props (Some ''File'') 0 False (Some open_detail))
          \<lparr>label = ''View'', submenu = View_submenu\<rparr>) (Some (click_on View_element))
      = ([StopPropagation, Dispatch (SetMenubarSelectedLabel (Some ''View'')),
          Dispatch (SetContextMenuDetail (Some
            \<lparr>detail_left = 80, detail_top = 20,
             detail_template =
               [\<lparr>item_type = None, item_label = Some ''Zoom In'', item_visible = None,
                 item_click = MenubarClick (Some ''webview'') (Some ''Zoom In'')\<rparr>]\<rparr>))],
         None)"
  using onClick_toggle
      [of "render_props (example_props (Some ''View'') 0 False (Some open_detail))
             \<lparr>label = ''View'', submenu = View_submenu\<rparr>" "click_on View_element"]
    onClick_toggle
      [of "render_props (example_props (Some ''File'') 0 False (Some open_detail))
             \<lparr>label = ''View'', submenu = View_submenu\<rparr>" "click_on View_element"]
  by (simp add: menubar_defs example_defs render_props_def Let_def)

text \<open>
  C6, as stated, fails for an item whose label is the empty string when the selected
  label is the empty string too: the labels are equal, and the click selects the item and
  opens its context menu instead of clearing.
\<close>

theorem onClick_equal_label_counterexample:
  "selectedLabel (props_menubar (render_props unlabelled_props (template unlabelled_props ! 0)))
     = Some (props_label (render_props unlabelled_props (template unlabelled_props ! 0)))
   \<and> onClick (render_props unlabelled_props (template unlabelled_props ! 0))
        (Some (click_on View_element))
      = ([StopPropagation, Dispatch (SetMenubarSelectedLabel (Some [])),
          Dispatch (SetContextMenuDetail (Some
            \<lparr>detail_left = 80, detail_top = 20,
             detail_template =
               [\<lparr>item_type = None, item_label = Some ''Zoom In'', item_visible = None,
                 item_click = MenubarClick None (Some ''Zoom In'')\<rparr>]\<rparr>))],
         None)"
  by (simp add: onClick_def menubar_defs example_defs render_props_def Let_def)

subsection \<open>The guards of the getters\<close>

text \<open>
  C9. \<open>selectedTemplate\<close> is \<open>null\<close> exactly when no template entry carries the selected
  label; then \<open>selectedTemplateItemsOnly\<close> raises, and so does \<open>selectedIndexMax\<close>,
  which does not return 0. When the selected label matches an entry both return. In
  \<open>onKeyDown\<close> the getters are only evaluated behind a test of \<open>selectedTemplate\<close>, so
  that the handler never ends with their \<open>TypeError\<close>, whatever the key, the props and
  the document (which may refuse selectors).
\<close>

theorem selectedTemplate_guards:
  "(selectedTemplate p = None
      \<longleftrightarrow> (\<forall>element \<in> set (template p). Some (label element) \<noteq> selectedLabel p))
   \<and> (selectedTemplate p = None \<longrightarrow>
        selectedTemplateItemsOnly p = Inl TypeError
        \<and> selectedIndexMax p = Inl TypeError
        \<and> selectedIndexMax p \<noteq> Inr 0)
   \<and> (selectedTemplate p \<noteq> None \<longrightarrow>
        (\<exists>items. selectedTemplateItemsOnly p = Inr items
           \<and> selectedIndexMax p = Inr (int (length items))))
   \<and> snd (onKeyDown doc p which) \<noteq> Some TypeError"
proof -
  have a: "selectedTemplate p = None
      \<longleftrightarrow> (\<forall>element \<in> set (template p). Some (label element) \<noteq> selectedLabel p)"
    unfolding selectedTemplate_def by (rule getTemplateByLabel_None_iff)
  have b: "selectedTemplate p = None \<longrightarrow>
        selectedTemplateItemsOnly p = Inl TypeError
        \<and> selectedIndexMax p = Inl TypeError
        \<and> selectedIndexMax p \<noteq> Inr 0"
    by (simp add: selectedIndexMax_def selectedTemplateItemsOnly_def)
  have c: "selectedTemplate p \<noteq> None \<longrightarrow>
        (\<exists>items. selectedTemplateItemsOnly p = Inr items
           \<and> selectedIndexMax p = Inr (int (length items)))"
    by (auto simp: selectedIndexMax_def selectedTemplateItemsOnly_def)
  have d: "snd (onKeyDown doc p which) \<noteq> Some TypeError"
    by (simp add: onKeyDown_def onKeyDown_enter_no_exn onKeyDown_leftRight_no_TypeError
        onKeyDown_upDown_no_TypeError)
  from a b c d show ?thesis by blast
qed

theorem selectedTemplate_guards_witness:
  "selectedTemplate (example_props (Some ''Help'') 0 False None) = None
   \<and> selectedIndexMax (example_props (Some ''Help'') 0 False None) = Inl TypeError
   \<and> onKeyDown example_document (example_props (Some ''Help'') 0 False None) keyCodes_DOWN
       = ([PreventDefault], None)
   \<and> selectedTemplate (example_props (Some ''File'') 0 False None) \<noteq> None
   \<and> selectedIndexMax (example_props (Some ''File'') 0 False None) = Inr 2
   \<and> selectedTemplate apostrophe_props \<noteq> None
   \<and> onKeyDown example_document apostrophe_props keyCodes_DOWN
       = ([PreventDefault], Some SyntaxError)
   \<and> onKeyDown example_document apostrophe_props keyCodes_RIGHT
       = ([PreventDefault], Some SyntaxError)"
  using selectedTemplate_guards [of "example_props (Some ''Help'') 0 False None"
      example_document keyCodes_DOWN]
    selectedTemplate_guards [of "example_props (Some ''File'') 0 False None"
      example_document keyCodes_DOWN]
    selectedTemplate_guards [of apostrophe_props example_document keyCodes_DOWN]
  by (simp add: menubar_defs example_defs key_defs)

subsection \<open>MenubarItem.onClick without a selected label\<close>

text \<open>
  C10. If the parent's selected label is absent or the empty string, a click on an item,
  even one whose label equals the selected label, dispatches the item's label as the new
  selected label and opens its context menu, and clears neither the selection nor the
  context menu.
\<close>

theorem onClick_falsy_selectedLabel:
  assumes "selectedLabel (props_menubar props) = None
           \<or> selectedLabel (props_menubar props) = Some []"
  shows "onClick props (Some e)
           = ((if has_stopPropagation e then [StopPropagation] else [])
              @ [Dispatch (SetMenubarSelectedLabel (Some (props_label props)))]
              @ showContextMenu (boundingClientRect (target e)) (props_submenu props)
                  (props_lastFocusedSelector props),
              None)
         \<and> Dispatch (SetMenubarSelectedLabel None) \<notin> set (fst (onClick props (Some e)))
         \<and> Dispatch (SetContextMenuDetail None) \<notin> set (fst (onClick props (Some e)))"
proof -
  have f: "\<not> truthy (selectedLabel (props_menubar props))"
    using assms by (auto simp: truthy_def)
  then show ?thesis by (simp add: onClick_def showContextMenu_def Let_def)
qed

theorem onClick_falsy_selectedLabel_witness:
  "(selectedLabel (props_menubar (render_props unlabelled_props \<lparr>label = [], submenu = []\<rparr>))
      = None
    \<or> selectedLabel (props_menubar (render_props unlabelled_props \<lparr>label = [], submenu = []\<rparr>))
      = Some [])
   \<and> props_label (render_props unlabelled_props \<lparr>label = [], submenu = []\<rparr>) = []
   \<and> onClick (render_props unlabelled_props \<lparr>label = [], submenu = []\<rparr>)
        (Some (click_on File_element))
      = ([StopPropagation, Dispatch (SetMenubarSelectedLabel (Some [])),
          Dispatch (SetContextMenuDetail (Some
            \<lparr>detail_left = 0, detail_top = 20, detail_template = []\<rparr>))], None)"
  using onClick_falsy_selectedLabel
      [of "render_props unlabelled_props \<lparr>label = [], submenu = []\<rparr>" "click_on File_element"]
  by (simp add: menubar_defs example_defs render_props_def Let_def)

end
